theory Spec2Isabelle
  imports Complex_Main
begin

section \<open>Dense arrays\<close>

text \<open>
  The expression module \<^verbatim>\<open>dyson/expressions/mp2.py\<close> computes with dense numpy
  arrays of double precision numbers. Arrays are modelled as nested lists in row-major
  order (a matrix is the list of its rows) and the numbers as \<^typ>\<open>real\<close>: rounding,
  infinities and NaN are outside the model, so every equation below is an equation of
  exact arithmetic.
\<close>

type_synonym vec = "real list"
type_synonym mat = "real list list"
type_synonym tensor3 = "real list list list"
type_synonym tensor4 = "real list list list list"

datatype py_error = ValueError | IndexError

text \<open>An exception raised by a step is propagated past the steps that follow it.\<close>

definition bind_err :: "py_error + 'a \<Rightarrow> ('a \<Rightarrow> py_error + 'b) \<Rightarrow> py_error + 'b" where
  "bind_err m f = (case m of Inl err \<Rightarrow> Inl err | Inr x \<Rightarrow> f x)"

text \<open>\<^verbatim>\<open>x.shape[-1]\<close> of a two-dimensional array.\<close>

definition ncols :: "'a list list \<Rightarrow> nat" where
  "ncols M = (case M of [] \<Rightarrow> 0 | row # _ \<Rightarrow> length row)"

text \<open>Indexing with a boolean mask, \<^verbatim>\<open>xs[mask]\<close>; on a matrix, \<^verbatim>\<open>M[:, mask]\<close>.\<close>

definition select :: "bool list \<Rightarrow> 'a list \<Rightarrow> 'a list" where
  "select msk xs = map snd (filter fst (zip msk xs))"

definition select_cols :: "bool list \<Rightarrow> 'a list list \<Rightarrow> 'a list list" where
  "select_cols msk M = map (select msk) M"

text \<open>\<^verbatim>\<open>np.sum(mask)\<close>: the number of entries that are true.\<close>

definition np_sum :: "bool list \<Rightarrow> nat" where
  "np_sum msk = length (filter id msk)"

text \<open>Elementwise arithmetic on vectors and matrices.\<close>

definition vadd :: "vec \<Rightarrow> vec \<Rightarrow> vec" where
  "vadd xs ys = map2 (+) xs ys"

definition vsub :: "vec \<Rightarrow> vec \<Rightarrow> vec" where
  "vsub xs ys = map2 (-) xs ys"

definition vmul :: "vec \<Rightarrow> vec \<Rightarrow> vec" where
  "vmul xs ys = map2 (*) xs ys"

definition vscale :: "vec \<Rightarrow> real \<Rightarrow> vec" where
  "vscale xs c = map (\<lambda>x. x * c) xs"

definition madd :: "mat \<Rightarrow> mat \<Rightarrow> mat" where
  "madd A B = map2 vadd A B"

definition mscale :: "mat \<Rightarrow> real \<Rightarrow> mat" where
  "mscale A c = map (\<lambda>row. vscale row c) A"

text \<open>\<^verbatim>\<open>np.diag\<close> of a vector is the diagonal matrix, of a matrix its diagonal.\<close>

definition diag_matrix :: "vec \<Rightarrow> mat" where
  "diag_matrix e = map (\<lambda>i. map (\<lambda>j. if i = j then e ! i else 0) [0..<length e]) [0..<length e]"

definition diag_of :: "mat \<Rightarrow> vec" where
  "diag_of M = map (\<lambda>i. M ! i ! i) [0..<min (length M) (ncols M)]"

text \<open>
  \<^verbatim>\<open>np.dot(M, v)\<close> of a matrix and a vector raises unless every row of the matrix is as
  long as the vector.
\<close>

definition np_dot :: "mat \<Rightarrow> vec \<Rightarrow> py_error + vec" where
  "np_dot M v =
     (if \<forall>row \<in> set M. length row = length v
      then Inr (map (\<lambda>row. \<Sum>y\<leftarrow>[0..<length v]. row ! y * v ! y) M)
      else Inl ValueError)"

text \<open>
  Broadcasting a vector to a length, as an in-place operation on a slice does with its
  right-hand side: a vector of that length is taken as it is, a vector of one element is
  repeated, and every other length raises.
\<close>

definition broadcast_to :: "nat \<Rightarrow> vec \<Rightarrow> py_error + vec" where
  "broadcast_to m x =
     (if length x = m then Inr x
      else if length x = 1 then Inr (replicate m (hd x))
      else Inl ValueError)"

text \<open>
  The local arrays of \<^verbatim>\<open>apply_hamiltonian\<close>: the argument \<open>vector\<close>, which belongs
  to the caller, and the result \<open>r\<close>. The in-place updates \<^verbatim>\<open>r[:n] += x\<close>,
  \<^verbatim>\<open>r[n:] += x\<close> and \<^verbatim>\<open>r[n:] -= x\<close> return the arrays after the update.
\<close>

record frame =
  vector :: vec
  r :: vec

definition iadd_p :: "nat \<Rightarrow> vec \<Rightarrow> frame \<Rightarrow> py_error + frame" where
  "iadd_p n x fr =
     bind_err (broadcast_to (length (take n (r fr))) x)
       (\<lambda>x'. Inr (fr\<lparr>r := vadd (take n (r fr)) x' @ drop n (r fr)\<rparr>))"

definition iadd_a :: "nat \<Rightarrow> vec \<Rightarrow> frame \<Rightarrow> py_error + frame" where
  "iadd_a n x fr =
     bind_err (broadcast_to (length (drop n (r fr))) x)
       (\<lambda>x'. Inr (fr\<lparr>r := take n (r fr) @ vadd (drop n (r fr)) x'\<rparr>))"

definition isub_a :: "nat \<Rightarrow> vec \<Rightarrow> frame \<Rightarrow> py_error + frame" where
  "isub_a n x fr =
     bind_err (broadcast_to (length (drop n (r fr))) x)
       (\<lambda>x'. Inr (fr\<lparr>r := take n (r fr) @ vsub (drop n (r fr)) x'\<rparr>))"

definition zeros_like :: "vec \<Rightarrow> vec" where
  "zeros_like v = replicate (length v) 0"

text \<open>
  \<^verbatim>\<open>v.reshape((d0, d1, d2))\<close> raises unless the vector has \<open>d0 * d1 * d2\<close> elements;
  \<^verbatim>\<open>T.ravel()\<close> lists the elements of a three-index array in row-major order.
\<close>

definition unflatten3 :: "nat \<times> nat \<times> nat \<Rightarrow> vec \<Rightarrow> tensor3" where
  "unflatten3 shape v =
     (case shape of (d0, d1, d2) \<Rightarrow>
        map (\<lambda>i. map (\<lambda>j. map (\<lambda>a. v ! ((i * d1 + j) * d2 + a)) [0..<d2]) [0..<d1]) [0..<d0])"

definition reshape3 :: "nat \<times> nat \<times> nat \<Rightarrow> vec \<Rightarrow> py_error + tensor3" where
  "reshape3 shape v =
     (case shape of (d0, d1, d2) \<Rightarrow>
        if length v = d0 * d1 * d2 then Inr (unflatten3 shape v) else Inl ValueError)"

definition ravel3 :: "tensor3 \<Rightarrow> vec" where
  "ravel3 T = concat (concat T)"

subsection \<open>Energy denominators and contractions\<close>

text \<open>The three calls of \<^verbatim>\<open>lib.direct_sum\<close>, one per index string.\<close>

definition direct_sum_xajb :: "vec \<Rightarrow> vec \<Rightarrow> vec \<Rightarrow> vec \<Rightarrow> tensor4" where
  "direct_sum_xajb e1 e2 e3 e4 =
     map (\<lambda>x. map (\<lambda>a. map (\<lambda>j. map (\<lambda>b. x - a + j - b) e4) e3) e2) e1"

definition direct_sum_ija :: "vec \<Rightarrow> vec \<Rightarrow> vec \<Rightarrow> tensor3" where
  "direct_sum_ija e1 e2 e3 = map (\<lambda>i. map (\<lambda>j. map (\<lambda>a. i + j - a) e3) e2) e1"

definition direct_sum_ja :: "vec \<Rightarrow> vec \<Rightarrow> mat" where
  "direct_sum_ja e1 e2 = map (\<lambda>j. map (\<lambda>a. j - a) e2) e1"

text \<open>
  Elementwise operations on arrays of three and four indices. The operands of each use
  below have the same shape whenever the orbital data are consistent.
\<close>

definition tscale3 :: "real \<Rightarrow> tensor3 \<Rightarrow> tensor3" where
  "tscale3 c T = map (map (map (\<lambda>x. c * x))) T"

definition tsub3 :: "tensor3 \<Rightarrow> tensor3 \<Rightarrow> tensor3" where
  "tsub3 S T = map2 (map2 (map2 (-))) S T"

definition tscale4 :: "real \<Rightarrow> tensor4 \<Rightarrow> tensor4" where
  "tscale4 c T = map (tscale3 c) T"

definition tsub4 :: "tensor4 \<Rightarrow> tensor4 \<Rightarrow> tensor4" where
  "tsub4 S T = map2 tsub3 S T"

definition tdiv4 :: "tensor4 \<Rightarrow> tensor4 \<Rightarrow> tensor4" where
  "tdiv4 S T = map2 (map2 (map2 (map2 (/)))) S T"

text \<open>\<^verbatim>\<open>T.transpose(0, 3, 2, 1)\<close>: the second and the fourth index change places.\<close>

definition transpose_0321 :: "tensor4 \<Rightarrow> tensor4" where
  "transpose_0321 T =
     map (\<lambda>Tx. map (\<lambda>b. map (\<lambda>j. map (\<lambda>a. Tx ! a ! j ! b) [0..<length Tx])
                                 [0..<ncols Tx])
                      [0..<(case Tx of [] \<Rightarrow> 0 | Ta # _ \<Rightarrow> ncols Ta)]) T"

text \<open>
  The contractions, one definition per index string of \<^verbatim>\<open>lib.einsum\<close>. In the
  first one the operands are summed over in step; in the others the extents of the
  indices \<open>i\<close>, \<open>j\<close>, \<open>a\<close> are arguments, for which the callers pass the shape of
  the energy array (\<open>e_ija\<close> or \<open>eja\<close>) that the operands are contracted or reshaped
  with. For a valid expression (below) this is the shape of the operands themselves.
\<close>

definition einsum_xajb_yajb_xy :: "tensor4 \<Rightarrow> tensor4 \<Rightarrow> mat" where
  "einsum_xajb_yajb_xy A B =
     map (\<lambda>Ax. map (\<lambda>By. \<Sum>(Aa, Ba)\<leftarrow>zip Ax By. \<Sum>(Aj, Bj)\<leftarrow>zip Aa Ba. \<Sum>(u, v)\<leftarrow>zip Aj Bj. u * v) B) A"

definition einsum_xija_ija_x :: "nat \<times> nat \<times> nat \<Rightarrow> tensor4 \<Rightarrow> tensor3 \<Rightarrow> vec" where
  "einsum_xija_ija_x shape X V =
     (case shape of (di, dj, da) \<Rightarrow>
        map (\<lambda>Xx. \<Sum>i\<leftarrow>[0..<di]. \<Sum>j\<leftarrow>[0..<dj]. \<Sum>a\<leftarrow>[0..<da]. Xx ! i ! j ! a * V ! i ! j ! a) X)"

definition einsum_xija_x_ija :: "nat \<times> nat \<times> nat \<Rightarrow> tensor4 \<Rightarrow> vec \<Rightarrow> tensor3" where
  "einsum_xija_x_ija shape X v =
     (case shape of (di, dj, da) \<Rightarrow>
        map (\<lambda>i. map (\<lambda>j. map (\<lambda>a. \<Sum>x\<leftarrow>[0..<length X]. X ! x ! i ! j ! a * v ! x) [0..<da])
                         [0..<dj]) [0..<di])"

definition einsum_xjia_x_ija :: "nat \<times> nat \<times> nat \<Rightarrow> tensor4 \<Rightarrow> vec \<Rightarrow> tensor3" where
  "einsum_xjia_x_ija shape X v =
     (case shape of (di, dj, da) \<Rightarrow>
        map (\<lambda>i. map (\<lambda>j. map (\<lambda>a. \<Sum>x\<leftarrow>[0..<length X]. X ! x ! j ! i ! a * v ! x) [0..<da])
                         [0..<dj]) [0..<di])"

definition einsum_xja_yja_ja_xy :: "nat \<times> nat \<Rightarrow> tensor3 \<Rightarrow> tensor3 \<Rightarrow> mat \<Rightarrow> mat" where
  "einsum_xja_yja_ja_xy shape L R W =
     (case shape of (dj, da) \<Rightarrow>
        map (\<lambda>x. map (\<lambda>y. \<Sum>j\<leftarrow>[0..<dj]. \<Sum>a\<leftarrow>[0..<da]. L ! x ! j ! a * R ! y ! j ! a * W ! j ! a)
                         [0..<length R]) [0..<length L])"

text \<open>
  The integral transformation of the external package,
  \<^verbatim>\<open>ao2mo.incore.general(eri, (c1, c2, c3, c4), compact=False)\<close>, together with the
  \<^verbatim>\<open>reshape\<close> to \<^verbatim>\<open>[x.shape[-1] for x in (c1, c2, c3, c4)]\<close> that follows each call:
  the two-electron integrals \<open>eri\<close> over atomic orbitals are contracted with one
  coefficient matrix per index.
\<close>

definition ao2mo_general :: "tensor4 \<Rightarrow> mat \<Rightarrow> mat \<Rightarrow> mat \<Rightarrow> mat \<Rightarrow> tensor4" where
  "ao2mo_general eri c1 c2 c3 c4 =
     map (\<lambda>i. map (\<lambda>j. map (\<lambda>k. map (\<lambda>l.
            \<Sum>p\<leftarrow>[0..<length eri]. \<Sum>q\<leftarrow>[0..<length eri]. \<Sum>r\<leftarrow>[0..<length eri]. \<Sum>s\<leftarrow>[0..<length eri].
              c1 ! p ! i * c2 ! q ! j * c3 ! r ! k * c4 ! s ! l * eri ! p ! q ! r ! s)
          [0..<ncols c4]) [0..<ncols c3]) [0..<ncols c2]) [0..<ncols c1]"

section \<open>The MP2 expression\<close>

text \<open>
  An expression object holds the data of the mean-field calculation (the integrals
  \<^verbatim>\<open>mf._eri\<close>, the orbital coefficients, energies and occupations), the flag
  \<^verbatim>\<open>_non_dyson\<close> and the cached integrals \<^verbatim>\<open>xija\<close>.
\<close>

record expr =
  eri :: tensor4
  mo_coeff :: mat
  mo_energy :: vec
  mo_occ :: vec
  non_dyson :: bool
  xija :: tensor4

text \<open>
  \<^verbatim>\<open>_mp2_constructor(occ, vir)\<close> makes a class from two masks on the orbitals; the
  class is the pair of the masks, and every method takes it as its first argument.
\<close>

record mp2_class =
  occ :: "expr \<Rightarrow> bool list"
  vir :: "expr \<Rightarrow> bool list"

definition mp2_constructor :: "(expr \<Rightarrow> bool list) \<Rightarrow> (expr \<Rightarrow> bool list) \<Rightarrow> mp2_class" where
  "mp2_constructor occ_mask vir_mask = \<lparr>occ = occ_mask, vir = vir_mask\<rparr>"

definition MP2_1h :: mp2_class where
  "MP2_1h = mp2_constructor (\<lambda>self. map (\<lambda>f. 0 < f) (mo_occ self)) (\<lambda>self. map (\<lambda>f. f = 0) (mo_occ self))"

definition MP2_1p :: mp2_class where
  "MP2_1p = mp2_constructor (\<lambda>self. map (\<lambda>f. f = 0) (mo_occ self)) (\<lambda>self. map (\<lambda>f. 0 < f) (mo_occ self))"

text \<open>
  \<^verbatim>\<open>get_static_part(self)\<close>. The quotients in \<^verbatim>\<open>t2 = xajb / e_xajb\<close> are those of
  exact arithmetic; where an energy denominator vanishes numpy warns and gives an
  infinity or NaN, which has no counterpart here. The theorems below use only the shape
  of \<open>t2\<close>, never the value of a quotient.
\<close>

definition get_static_part :: "mp2_class \<Rightarrow> expr \<Rightarrow> mat" where
  "get_static_part cls self =
     (let c = (if non_dyson self then select_cols (occ cls self) (mo_coeff self) else mo_coeff self);
          e = (if non_dyson self then select (occ cls self) (mo_energy self) else mo_energy self);
          co = select_cols (occ cls self) (mo_coeff self);
          cv = select_cols (vir cls self) (mo_coeff self);
          eo = select (occ cls self) (mo_energy self);
          ev = select (vir cls self) (mo_energy self);
          e_xajb = direct_sum_xajb e ev eo ev;
          xajb = ao2mo_general (eri self) c cv co cv;
          t2 = tdiv4 xajb e_xajb;
          xajb = tsub4 (tscale4 2 xajb) (transpose_0321 xajb);
          h1 = mscale (einsum_xajb_yajb_xy xajb t2) 0.5;
          h1 = madd h1 (transpose h1);
          h1 = madd h1 (diag_matrix e)
      in h1)"

text \<open>\<^verbatim>\<open>_integrals_for_hamiltonian(self)\<close>; its locals \<open>e\<close>, \<open>p\<close> and \<open>a\<close> are not used.\<close>

definition integrals_for_hamiltonian :: "mp2_class \<Rightarrow> expr \<Rightarrow> tensor4" where
  "integrals_for_hamiltonian cls self =
     (let c = (if non_dyson self then select_cols (occ cls self) (mo_coeff self) else mo_coeff self);
          co = select_cols (occ cls self) (mo_coeff self);
          cv = select_cols (vir cls self) (mo_coeff self)
      in ao2mo_general (eri self) c co co cv)"

text \<open>
  Modelled from the spec: \<^verbatim>\<open>BaseExpression.__init__\<close> is not among the sources. By
  sections 3 and 6 of the specification an expression is built from the data of the
  electronic-structure provider, which it only reads: the two-electron integrals, the
  orbital coefficient matrix (atomic orbitals by molecular orbitals), the orbital
  energies and the orbital occupations. The two fields of the subclass are set by
  \<open>mp2_init\<close> below.
\<close>

record mean_field =
  mf_eri :: tensor4
  mf_mo_coeff :: mat
  mf_mo_energy :: vec
  mf_mo_occ :: vec

definition base_init :: "mean_field \<Rightarrow> expr" where
  "base_init mf =
     \<lparr>eri = mf_eri mf, mo_coeff = mf_mo_coeff mf, mo_energy = mf_mo_energy mf,
      mo_occ = mf_mo_occ mf, non_dyson = False, xija = []\<rparr>"

text \<open>\<^verbatim>\<open>__init__(self, *args, non_dyson=False, **kwargs)\<close>.\<close>

definition mp2_init :: "mp2_class \<Rightarrow> mean_field \<Rightarrow> bool \<Rightarrow> expr" where
  "mp2_init cls mf flag =
     (let self = base_init mf;
          self = self\<lparr>non_dyson := flag\<rparr>;
          self = self\<lparr>xija := integrals_for_hamiltonian cls self\<rparr>
      in self)"

text \<open>The setter of the property \<^verbatim>\<open>non_dyson\<close>.\<close>

definition set_non_dyson :: "mp2_class \<Rightarrow> bool \<Rightarrow> expr \<Rightarrow> expr" where
  "set_non_dyson cls val self =
     (let old = non_dyson self;
          self = self\<lparr>non_dyson := val\<rparr>
      in if val \<noteq> old then self\<lparr>xija := integrals_for_hamiltonian cls self\<rparr> else self)"

text \<open>
  \<^verbatim>\<open>apply_hamiltonian(self, vector, static=None)\<close>. The run of the body gives the
  local arrays at the \<^verbatim>\<open>return\<close>, or the exception of the first step that raises;
  the method returns the array \<open>r\<close>.
\<close>

definition apply_hamiltonian_run :: "mp2_class \<Rightarrow> expr \<Rightarrow> vec \<Rightarrow> mat option \<Rightarrow> py_error + frame" where
  "apply_hamiltonian_run cls self v static =
     (let static = (case static of None \<Rightarrow> get_static_part cls self | Some s \<Rightarrow> s);
          e = (if non_dyson self then select (occ cls self) (mo_energy self) else mo_energy self);
          n = length e;
          eo = select (occ cls self) (mo_energy self);
          ev = select (vir cls self) (mo_energy self);
          e_ija = direct_sum_ija eo eo ev;
          shape = (length eo, length eo, length ev);
          X = xija self;
          fr = \<lparr>vector = v, r = zeros_like v\<rparr>
      in bind_err (np_dot static (take n (vector fr))) (\<lambda>sv.
         bind_err (iadd_p n sv fr) (\<lambda>fr.
         bind_err (reshape3 shape (drop n (vector fr))) (\<lambda>va.
         bind_err (iadd_p n (einsum_xija_ija_x shape X va) fr) (\<lambda>fr.
         bind_err (iadd_a n (vscale (ravel3 (einsum_xija_x_ija shape X (take n (vector fr)))) 2) fr) (\<lambda>fr.
         bind_err (isub_a n (ravel3 (einsum_xjia_x_ija shape X (take n (vector fr)))) fr) (\<lambda>fr.
         iadd_a n (vmul (drop n (vector fr)) (ravel3 e_ija)) fr)))))))"

definition apply_hamiltonian :: "mp2_class \<Rightarrow> expr \<Rightarrow> vec \<Rightarrow> mat option \<Rightarrow> py_error + vec" where
  "apply_hamiltonian cls self v static =
     bind_err (apply_hamiltonian_run cls self v static) (\<lambda>fr. Inr (r fr))"

text \<open>\<^verbatim>\<open>diagonal(self, static=None)\<close>.\<close>

definition diagonal :: "mp2_class \<Rightarrow> expr \<Rightarrow> mat option \<Rightarrow> vec" where
  "diagonal cls self static =
     (let static = (case static of None \<Rightarrow> get_static_part cls self | Some s \<Rightarrow> s);
          eo = select (occ cls self) (mo_energy self);
          ev = select (vir cls self) (mo_energy self);
          e_ija = direct_sum_ija eo eo ev
      in diag_of static @ ravel3 e_ija)"

text \<open>
  The assignment \<^verbatim>\<open>r[orb] = 1.0\<close> with an integer index: a negative index counts from
  the end, and an index outside the array raises.
\<close>

definition setitem :: "vec \<Rightarrow> int \<Rightarrow> real \<Rightarrow> py_error + vec" where
  "setitem xs i x =
     (let n = int (length xs); j = (if i < 0 then n + i else i)
      in if 0 \<le> j \<and> j < n then Inr (xs[nat j := x]) else Inl IndexError)"

definition get_wavefunction :: "mp2_class \<Rightarrow> expr \<Rightarrow> int \<Rightarrow> py_error + vec" where
  "get_wavefunction cls self orb =
     (let nocc = np_sum (occ cls self);
          nvir = np_sum (vir cls self);
          nija = nocc * nocc * nvir;
          n = (if non_dyson self then nocc else nocc + nvir);
          r = replicate (n + nija) 0
      in setitem r orb 1)"

text \<open>
  In \<^verbatim>\<open>build_se_moments\<close> the accumulator \<open>tn\<close> starts as the Python integer \<open>0\<close>
  and becomes a matrix at the first \<^verbatim>\<open>tn += ...\<close>, which adds the number to every
  entry; from then on the addition is that of matrices. The slices \<^verbatim>\<open>xija[:, i]\<close>
  and \<^verbatim>\<open>xija[:, :, i]\<close> fix the second and the third index.
\<close>

datatype ndval = Scalar real | Matrix mat

fun nd_iadd :: "ndval \<Rightarrow> mat \<Rightarrow> ndval" where
  "nd_iadd (Scalar s) M = Matrix (map (map (\<lambda>x. s + x)) M)"
| "nd_iadd (Matrix A) M = Matrix (madd A M)"

definition slice1 :: "nat \<Rightarrow> tensor4 \<Rightarrow> tensor3" where
  "slice1 i X = map (\<lambda>Xx. Xx ! i) X"

definition slice2 :: "nat \<Rightarrow> tensor4 \<Rightarrow> tensor3" where
  "slice2 i X = map (map (\<lambda>Xxj. Xxj ! i)) X"

definition se_moment_term :: "vec \<Rightarrow> vec \<Rightarrow> tensor4 \<Rightarrow> nat \<Rightarrow> nat \<Rightarrow> mat" where
  "se_moment_term eo ev X n i =
     (let vl = slice1 i X;
          vr = tsub3 (tscale3 2 (slice1 i X)) (slice2 i X);
          eja = map (map (\<lambda>x. eo ! i + x)) (direct_sum_ja eo ev)
      in einsum_xja_yja_ja_xy (length eo, length ev) vl vr (map (map (\<lambda>x. x ^ n)) eja))"

text \<open>
  \<^verbatim>\<open>build_se_moments(self, nmom)\<close>: the outer loop is the \<open>map\<close> over the orders,
  the inner loop the \<open>fold\<close> over the occupied orbitals. The result lists the entries
  of \<^verbatim>\<open>np.array(t)\<close> along its first axis.
\<close>

definition build_se_moments :: "mp2_class \<Rightarrow> expr \<Rightarrow> nat \<Rightarrow> ndval list" where
  "build_se_moments cls self nmom =
     (let eo = select (occ cls self) (mo_energy self);
          ev = select (vir cls self) (mo_energy self);
          X = xija self
      in map (\<lambda>n. fold (\<lambda>i tn. nd_iadd tn (se_moment_term eo ev X n i)) [0..<length eo] (Scalar 0))
           [0..<nmom])"





section \<open>Notions of the specification\<close>

text \<open>
  The sizes of the main block, of the two orbital subsets and of the auxiliary space
  (all triples of two occupied and one virtual orbital).
\<close>

definition n_main :: "mp2_class \<Rightarrow> expr \<Rightarrow> nat" where
  "n_main cls self =
     length (if non_dyson self then select (occ cls self) (mo_energy self) else mo_energy self)"

definition n_occ :: "mp2_class \<Rightarrow> expr \<Rightarrow> nat" where
  "n_occ cls self = length (select (occ cls self) (mo_energy self))"

definition n_vir :: "mp2_class \<Rightarrow> expr \<Rightarrow> nat" where
  "n_vir cls self = length (select (vir cls self) (mo_energy self))"

definition n_aux :: "mp2_class \<Rightarrow> expr \<Rightarrow> nat" where
  "n_aux cls self = n_occ cls self * n_occ cls self * n_vir cls self"

text \<open>
  Valid orbital data: with \<open>nao\<close> atomic and \<open>nmo\<close> molecular orbitals, the
  coefficient matrix is \<open>nao \<times> nmo\<close>, the integrals have four indices of extent
  \<open>nao\<close>, the masks have one entry per molecular orbital, and every orbital is either
  occupied or virtual. An expression is valid when moreover its cached integrals are
  those of its present mode, as they are after \<open>mp2_init\<close> and after every call of the
  setter. On arrays of other shapes numpy raises at the first operation whose operands do
  not fit; the theorems below are about valid expressions.
\<close>

definition has_shape4 :: "nat \<times> nat \<times> nat \<times> nat \<Rightarrow> tensor4 \<Rightarrow> bool" where
  "has_shape4 shape T =
     (case shape of (d0, d1, d2, d3) \<Rightarrow>
        length T = d0 \<and> (\<forall>Tx \<in> set T. length Tx = d1 \<and>
          (\<forall>Txy \<in> set Tx. length Txy = d2 \<and> (\<forall>Txyz \<in> set Txy. length Txyz = d3))))"

definition valid_orbitals :: "mp2_class \<Rightarrow> expr \<Rightarrow> bool" where
  "valid_orbitals cls self =
     (let nmo = length (mo_energy self); nao = length (mo_coeff self)
      in length (occ cls self) = nmo \<and> vir cls self = map Not (occ cls self)
         \<and> (\<forall>row \<in> set (mo_coeff self). length row = nmo) \<and> (nao = 0 \<longrightarrow> nmo = 0)
         \<and> has_shape4 (nao, nao, nao, nao) (eri self))"

definition valid_expr :: "mp2_class \<Rightarrow> expr \<Rightarrow> bool" where
  "valid_expr cls self =
     (valid_orbitals cls self \<and> xija self = integrals_for_hamiltonian cls self)"

text \<open>The standard basis vector \<open>k\<close> of length \<open>N\<close>, and \<open>c * u + w\<close> on vectors.\<close>

definition unit_vec :: "nat \<Rightarrow> nat \<Rightarrow> vec" where
  "unit_vec N k = (replicate N 0)[k := 1]"







text \<open>
  The self-energy moment of order \<open>n\<close> in the words of the specification: the sum over
  the occupied index \<open>i\<close> and the auxiliary pairs \<open>(j, a)\<close> of the products of the
  couplings, weighted by the power \<open>n\<close> of the auxiliary energy.
\<close>

definition se_moment_spec :: "mp2_class \<Rightarrow> expr \<Rightarrow> nat \<Rightarrow> mat" where
  "se_moment_spec cls self n =
     (let eo = select (occ cls self) (mo_energy self);
          ev = select (vir cls self) (mo_energy self);
          X = xija self
      in map (\<lambda>x. map (\<lambda>y.
           \<Sum>i\<leftarrow>[0..<n_occ cls self]. \<Sum>j\<leftarrow>[0..<n_occ cls self]. \<Sum>a\<leftarrow>[0..<n_vir cls self].
             X ! x ! i ! j ! a * (2 * X ! y ! i ! j ! a - X ! y ! j ! i ! a)
               * (eo ! i + eo ! j - ev ! a) ^ n)
           [0..<n_main cls self]) [0..<n_main cls self])"

text \<open>
  Exchanging the occupied with the virtual orbitals in the data of the provider: an
  occupied orbital becomes empty, an empty one doubly occupied.
\<close>

definition exchange_occupation :: "mean_field \<Rightarrow> mean_field" where
  "exchange_occupation mf =
     mf\<lparr>mf_mo_occ := map (\<lambda>f. if 0 < f then 0 else if f = 0 then 2 else f) (mf_mo_occ mf)\<rparr>"

text \<open>
  The scenario of section 8 of the specification: two occupied and two virtual orbitals
  with the energies \<open>-1, -1/2, 1/2, 1\<close>, and integrals that are all one.
\<close>

definition example_mf :: mean_field where
  "example_mf =
     \<lparr>mf_eri = replicate 4 (replicate 4 (replicate 4 (replicate 4 1))),
      mf_mo_coeff = [[1, 0, 0, 0], [0, 1, 0, 0], [0, 0, 1, 0], [0, 0, 0, 1]],
      mf_mo_energy = [-1, -1/2, 1/2, 1],
      mf_mo_occ = [2, 2, 0, 0]\<rparr>"

text \<open>
  A closed-shell system in a minimal basis: one doubly occupied orbital and no virtual
  one (the helium atom with one basis function). For the particle variant \<open>MP2_1p\<close>
  the mask \<open>occ\<close> selects the empty orbitals, of which there are none.
\<close>

definition minimal_mf :: mean_field where
  "minimal_mf = \<lparr>mf_eri = [[[[1]]]], mf_mo_coeff = [[1]], mf_mo_energy = [-1], mf_mo_occ = [2]\<rparr>"

section \<open>Shapes, masks and validity\<close>

lemma length_select: "length msk = length xs \<Longrightarrow> length (select msk xs) = np_sum msk"
  unfolding select_def np_sum_def
  by (induction msk xs rule: list_induct2) auto

lemma ncols_select_cols:
  "\<forall>row \<in> set M. length row = length msk \<Longrightarrow> M \<noteq> [] \<Longrightarrow> ncols (select_cols msk M) = np_sum msk"
  unfolding ncols_def select_cols_def
  by (cases M) (simp_all add: length_select)

lemma ncols_select_cols_Nil: "ncols (select_cols msk []) = 0"
  by (simp add: ncols_def select_cols_def)

lemma np_sum_le: "np_sum msk \<le> length msk"
  by (simp add: np_sum_def)

lemma np_sum_Not: "np_sum msk + np_sum (map Not msk) = length msk"
  unfolding np_sum_def by (induction msk) auto

lemma has_shape4_ao2mo:
  "has_shape4 (ncols c1, ncols c2, ncols c3, ncols c4) (ao2mo_general g c1 c2 c3 c4)"
  by (auto simp: has_shape4_def ao2mo_general_def)

lemma exchanged_occupied:
  "map (\<lambda>f. 0 < f) (mf_mo_occ (exchange_occupation mf)) = map (\<lambda>f. f = 0) (mf_mo_occ mf)"
  by (simp add: exchange_occupation_def)

lemma exchanged_virtual:
  "map (\<lambda>f. f = 0) (mf_mo_occ (exchange_occupation mf)) = map (\<lambda>f. 0 < f) (mf_mo_occ mf)"
  by (auto simp: exchange_occupation_def)

lemma exchanged_fields:
  "mf_eri (exchange_occupation mf) = mf_eri mf"
  "mf_mo_coeff (exchange_occupation mf) = mf_mo_coeff mf"
  "mf_mo_energy (exchange_occupation mf) = mf_mo_energy mf"
  by (simp_all add: exchange_occupation_def)

lemma MP2_masks:
  "occ MP2_1h self = map (\<lambda>f. 0 < f) (mo_occ self)"
  "vir MP2_1h self = map (\<lambda>f. f = 0) (mo_occ self)"
  "occ MP2_1p self = map (\<lambda>f. f = 0) (mo_occ self)"
  "vir MP2_1p self = map (\<lambda>f. 0 < f) (mo_occ self)"
  by (simp_all add: MP2_1h_def MP2_1p_def mp2_constructor_def)

lemma mp2_init_fields:
  "eri (mp2_init cls mf flag) = mf_eri mf"
  "mo_coeff (mp2_init cls mf flag) = mf_mo_coeff mf"
  "mo_energy (mp2_init cls mf flag) = mf_mo_energy mf"
  "mo_occ (mp2_init cls mf flag) = mf_mo_occ mf"
  "non_dyson (mp2_init cls mf flag) = flag"
  by (simp_all add: mp2_init_def base_init_def Let_def)

lemma xija_mp2_init:
  "xija (mp2_init cls mf flag) = integrals_for_hamiltonian cls (base_init mf\<lparr>non_dyson := flag\<rparr>)"
  by (simp add: mp2_init_def Let_def)

lemma particle_hole_masks:
  "occ MP2_1p (mp2_init MP2_1p mf flag) = occ MP2_1h (mp2_init MP2_1h (exchange_occupation mf) flag)"
  "vir MP2_1p (mp2_init MP2_1p mf flag) = vir MP2_1h (mp2_init MP2_1h (exchange_occupation mf) flag)"
  by (simp_all add: MP2_masks mp2_init_fields exchanged_occupied exchanged_virtual)

lemma particle_hole_xija:
  "xija (mp2_init MP2_1p mf flag) = xija (mp2_init MP2_1h (exchange_occupation mf) flag)"
  by (simp add: xija_mp2_init integrals_for_hamiltonian_def MP2_masks base_init_def
      exchanged_occupied exchanged_virtual exchanged_fields)

lemma integrals_indep:
  assumes "cls = MP2_1h \<or> cls = MP2_1p"
  shows "integrals_for_hamiltonian cls (self\<lparr>xija := Y\<rparr>) = integrals_for_hamiltonian cls self"
  using assms by (auto simp: integrals_for_hamiltonian_def MP2_masks)

lemma valid_orbitals_cong:
  assumes "cls = MP2_1h \<or> cls = MP2_1p"
    and "eri s = eri s'" "mo_coeff s = mo_coeff s'" "mo_energy s = mo_energy s'" "mo_occ s = mo_occ s'"
  shows "valid_orbitals cls s = valid_orbitals cls s'"
  using assms(1)
  by (rule disjE) (simp_all only: valid_orbitals_def MP2_masks assms(2-))

lemma valid_mp2_init:
  assumes "valid_orbitals cls (base_init mf)" and "cls = MP2_1h \<or> cls = MP2_1p"
  shows "valid_expr cls (mp2_init cls mf flag)"
proof -
  have "valid_orbitals cls (mp2_init cls mf flag) = valid_orbitals cls (base_init mf)"
    by (rule valid_orbitals_cong [OF assms(2)]) (simp_all add: mp2_init_fields base_init_def)
  moreover have "xija (mp2_init cls mf flag) = integrals_for_hamiltonian cls (mp2_init cls mf flag)"
    by (simp add: mp2_init_def Let_def integrals_indep [OF assms(2)])
  ultimately show ?thesis using assms(1) by (simp add: valid_expr_def)
qed

lemma valid_set_non_dyson:
  assumes "valid_expr cls self" and "cls = MP2_1h \<or> cls = MP2_1p"
  shows "valid_expr cls (set_non_dyson cls val self)"
proof -
  have "valid_orbitals cls (set_non_dyson cls val self) = valid_orbitals cls self"
    by (rule valid_orbitals_cong [OF assms(2)]) (simp_all add: set_non_dyson_def Let_def)
  moreover have "xija (set_non_dyson cls val self)
                 = integrals_for_hamiltonian cls (set_non_dyson cls val self)"
    using assms(1)
    by (auto simp: set_non_dyson_def Let_def integrals_indep [OF assms(2)] valid_expr_def)
  ultimately show ?thesis using assms(1) by (simp add: valid_expr_def)
qed


lemma example_valid: "valid_expr MP2_1h (mp2_init MP2_1h example_mf flag)"
proof (rule valid_mp2_init)
  show "valid_orbitals MP2_1h (base_init example_mf)"
    by (simp add: valid_orbitals_def Let_def MP2_masks base_init_def example_mf_def has_shape4_def)
qed simp

section \<open>Reuse of the static block\<close>

text \<open>
  Claim C8. A static block supplied by the caller is only there to avoid recomputation:
  with \<open>static = get_static_part()\<close> both \<open>apply_hamiltonian\<close> and \<open>diagonal\<close>
  return what they return when \<open>static\<close> is omitted, for every expression and vector
  (also when the call raises).
\<close>

theorem static_reuse:
  "apply_hamiltonian cls self v (Some (get_static_part cls self)) = apply_hamiltonian cls self v None
   \<and> diagonal cls self (Some (get_static_part cls self)) = diagonal cls self None"
  by (simp add: apply_hamiltonian_def apply_hamiltonian_run_def diagonal_def)

theorem static_reuse_witness:
  "apply_hamiltonian MP2_1h (mp2_init MP2_1h example_mf False) (unit_vec 12 0)
       (Some (get_static_part MP2_1h (mp2_init MP2_1h example_mf False)))
     = apply_hamiltonian MP2_1h (mp2_init MP2_1h example_mf False) (unit_vec 12 0) None
   \<and> diagonal MP2_1h (mp2_init MP2_1h example_mf False)
       (Some (get_static_part MP2_1h (mp2_init MP2_1h example_mf False)))
     = diagonal MP2_1h (mp2_init MP2_1h example_mf False) None"
  by (rule static_reuse)

section \<open>The read operations leave the object and the argument alone\<close>








section \<open>The two variants\<close>

text \<open>
  Claim C9. The particle variant \<open>MP2_1p\<close> is the hole variant \<open>MP2_1h\<close> with the two
  masks exchanged: on every input of the provider, each public operation of the
  \<open>MP2_1p\<close> expression returns what the same operation of the \<open>MP2_1h\<close> expression
  returns on the input whose occupied and virtual orbitals are exchanged.
\<close>

theorem particle_hole_exchange:
  "get_static_part MP2_1p (mp2_init MP2_1p mf flag)
     = get_static_part MP2_1h (mp2_init MP2_1h (exchange_occupation mf) flag)
   \<and> apply_hamiltonian MP2_1p (mp2_init MP2_1p mf flag) v static
     = apply_hamiltonian MP2_1h (mp2_init MP2_1h (exchange_occupation mf) flag) v static
   \<and> diagonal MP2_1p (mp2_init MP2_1p mf flag) static
     = diagonal MP2_1h (mp2_init MP2_1h (exchange_occupation mf) flag) static
   \<and> get_wavefunction MP2_1p (mp2_init MP2_1p mf flag) orb
     = get_wavefunction MP2_1h (mp2_init MP2_1h (exchange_occupation mf) flag) orb
   \<and> build_se_moments MP2_1p (mp2_init MP2_1p mf flag) nmom
     = build_se_moments MP2_1h (mp2_init MP2_1h (exchange_occupation mf) flag) nmom"
proof -
  let ?p = "mp2_init MP2_1p mf flag"
  let ?h = "mp2_init MP2_1h (exchange_occupation mf) flag"
  note eqs = particle_hole_masks [of mf flag] particle_hole_xija [of mf flag]
    mp2_init_fields exchanged_fields
  have s: "get_static_part MP2_1p ?p = get_static_part MP2_1h ?h"
    unfolding get_static_part_def by (simp only: eqs)
  have a: "apply_hamiltonian MP2_1p ?p v static = apply_hamiltonian MP2_1h ?h v static"
    unfolding apply_hamiltonian_def apply_hamiltonian_run_def by (simp only: eqs s)
  have d: "diagonal MP2_1p ?p static = diagonal MP2_1h ?h static"
    unfolding diagonal_def by (simp only: eqs s)
  have w: "get_wavefunction MP2_1p ?p orb = get_wavefunction MP2_1h ?h orb"
    unfolding get_wavefunction_def by (simp only: eqs)
  have b: "build_se_moments MP2_1p ?p nmom = build_se_moments MP2_1h ?h nmom"
    unfolding build_se_moments_def by (simp only: eqs)
  from s a d w b show ?thesis by blast
qed

theorem particle_hole_exchange_witness:
  "get_static_part MP2_1p (mp2_init MP2_1p example_mf False)
     = get_static_part MP2_1h (mp2_init MP2_1h (exchange_occupation example_mf) False)
   \<and> apply_hamiltonian MP2_1p (mp2_init MP2_1p example_mf False) (unit_vec 12 0) None
     = apply_hamiltonian MP2_1h (mp2_init MP2_1h (exchange_occupation example_mf) False) (unit_vec 12 0) None
   \<and> diagonal MP2_1p (mp2_init MP2_1p example_mf False) None
     = diagonal MP2_1h (mp2_init MP2_1h (exchange_occupation example_mf) False) None
   \<and> get_wavefunction MP2_1p (mp2_init MP2_1p example_mf False) 0
     = get_wavefunction MP2_1h (mp2_init MP2_1h (exchange_occupation example_mf) False) 0
   \<and> build_se_moments MP2_1p (mp2_init MP2_1p example_mf False) 2
     = build_se_moments MP2_1h (mp2_init MP2_1h (exchange_occupation example_mf) False) 2"
  by (rule particle_hole_exchange)

section \<open>Toggling the mode\<close>

text \<open>
  Claim C6. Setting \<open>non_dyson\<close> to the opposite value and then back to the original
  one gives back the cached integrals \<open>xija\<close> (indeed the whole object) that a valid
  expression of either variant had before.
\<close>

theorem non_dyson_round_trip:
  assumes "valid_expr cls self" and "cls = MP2_1h \<or> cls = MP2_1p"
  shows "set_non_dyson cls (non_dyson self) (set_non_dyson cls (\<not> non_dyson self) self) = self
         \<and> xija (set_non_dyson cls (non_dyson self) (set_non_dyson cls (\<not> non_dyson self) self))
             = xija self"
proof -
  have coh: "xija self = integrals_for_hamiltonian cls self"
    using assms(1) by (simp add: valid_expr_def)
  have "set_non_dyson cls (non_dyson self) (set_non_dyson cls (\<not> non_dyson self) self)
        = self\<lparr>xija := integrals_for_hamiltonian cls self\<rparr>"
    by (simp add: set_non_dyson_def Let_def integrals_indep [OF assms(2)])
  also have "\<dots> = self" by (simp add: coh [symmetric])
  finally show ?thesis by simp
qed

theorem non_dyson_round_trip_witness:
  "valid_expr MP2_1h (mp2_init MP2_1h example_mf False)
   \<and> (MP2_1h = MP2_1h \<or> MP2_1h = MP2_1p)
   \<and> xija (set_non_dyson MP2_1h (non_dyson (mp2_init MP2_1h example_mf False))
        (set_non_dyson MP2_1h (\<not> non_dyson (mp2_init MP2_1h example_mf False))
          (mp2_init MP2_1h example_mf False)))
     = xija (mp2_init MP2_1h example_mf False)"
proof -
  have v: "valid_expr MP2_1h (mp2_init MP2_1h example_mf False)"
    by (rule example_valid)
  have c: "MP2_1h = MP2_1h \<or> MP2_1h = MP2_1p"
    by simp
  from non_dyson_round_trip [OF v c] v show ?thesis
    by blast
qed

section \<open>The static part\<close>

lemma ncols_rows: "M \<noteq> [] \<Longrightarrow> \<forall>row \<in> set M. length row = m \<Longrightarrow> ncols M = m"
  by (cases M) (simp_all add: ncols_def)

lemma valid_masks:
  assumes "valid_orbitals cls self"
  shows "length (occ cls self) = length (mo_energy self)"
    and "length (vir cls self) = length (mo_energy self)"
    and "np_sum (occ cls self) + np_sum (vir cls self) = length (mo_energy self)"
  using assms np_sum_Not [of "occ cls self"]
  by (simp_all add: valid_orbitals_def Let_def)

lemma valid_counts:
  assumes "valid_orbitals cls self"
  shows "n_occ cls self = np_sum (occ cls self)" and "n_vir cls self = np_sum (vir cls self)"
  using valid_masks [OF assms] by (simp_all add: n_occ_def n_vir_def length_select)

lemma valid_mo_coeff_Nil:
  assumes "valid_orbitals cls self" and "mo_coeff self = []"
  shows "mo_energy self = []" and "occ cls self = []" and "vir cls self = []"
  using assms by (auto simp: valid_orbitals_def Let_def)

lemma ncols_occ:
  assumes "valid_orbitals cls self"
  shows "ncols (select_cols (occ cls self) (mo_coeff self)) = n_occ cls self"
proof (cases "mo_coeff self = []")
  case True
  with valid_mo_coeff_Nil [OF assms True] show ?thesis
    by (simp add: ncols_select_cols_Nil n_occ_def select_def)
next
  case False
  have "\<forall>row \<in> set (mo_coeff self). length row = length (occ cls self)"
    using assms by (simp add: valid_orbitals_def Let_def)
  from ncols_select_cols [OF this False] valid_counts [OF assms] show ?thesis by simp
qed

lemma ncols_vir:
  assumes "valid_orbitals cls self"
  shows "ncols (select_cols (vir cls self) (mo_coeff self)) = n_vir cls self"
proof (cases "mo_coeff self = []")
  case True
  with valid_mo_coeff_Nil [OF assms True] show ?thesis
    by (simp add: ncols_select_cols_Nil n_vir_def select_def)
next
  case False
  have "\<forall>row \<in> set (mo_coeff self). length row = length (vir cls self)"
    using assms valid_masks(2) [OF assms] by (simp add: valid_orbitals_def Let_def)
  from ncols_select_cols [OF this False] valid_counts [OF assms] show ?thesis by simp
qed

lemma ncols_main:
  assumes "valid_orbitals cls self"
  shows "ncols (if non_dyson self then select_cols (occ cls self) (mo_coeff self) else mo_coeff self)
         = n_main cls self"
proof (cases "non_dyson self")
  case True
  then show ?thesis using ncols_occ [OF assms] by (simp add: n_main_def n_occ_def)
next
  case False
  show ?thesis
  proof (cases "mo_coeff self = []")
    case True
    with valid_mo_coeff_Nil [OF assms True] False show ?thesis
      by (simp add: n_main_def ncols_def)
  next
    case nonempty: False
    have "\<forall>row \<in> set (mo_coeff self). length row = length (mo_energy self)"
      using assms by (simp add: valid_orbitals_def Let_def)
    from ncols_rows [OF nonempty this] False show ?thesis by (simp add: n_main_def)
  qed
qed

lemma xija_shape:
  assumes "valid_expr cls self"
  shows "has_shape4 (n_main cls self, n_occ cls self, n_occ cls self, n_vir cls self) (xija self)"
proof -
  have v: "valid_orbitals cls self" and coh: "xija self = integrals_for_hamiltonian cls self"
    using assms by (simp_all add: valid_expr_def)
  show ?thesis
    unfolding coh integrals_for_hamiltonian_def Let_def
    using has_shape4_ao2mo [of "if non_dyson self then select_cols (occ cls self) (mo_coeff self) else mo_coeff self"
        "select_cols (occ cls self) (mo_coeff self)" "select_cols (occ cls self) (mo_coeff self)"
        "select_cols (vir cls self) (mo_coeff self)" "eri self"]
    by (simp only: ncols_main [OF v] ncols_occ [OF v] ncols_vir [OF v])
qed

subsection \<open>Matrices\<close>

lemma nth_vadd: "j < length x \<Longrightarrow> j < length y \<Longrightarrow> vadd x y ! j = x ! j + y ! j"
  by (simp add: vadd_def)

lemma length_vadd: "length (vadd x y) = min (length x) (length y)"
  by (simp add: vadd_def)

lemma length_madd: "length (madd A B) = min (length A) (length B)"
  by (simp add: madd_def)

lemma nth_madd: "i < length A \<Longrightarrow> i < length B \<Longrightarrow> madd A B ! i = vadd (A ! i) (B ! i)"
  by (simp add: madd_def)

lemma square_transpose:
  assumes "length h = n" and "\<forall>row \<in> set h. length row = n"
  shows "transpose h = map (\<lambda>i. map (\<lambda>j. h ! j ! i) [0..<n]) [0..<n]"
proof -
  have "transpose h = map (\<lambda>i. map (\<lambda>j. h ! j ! i) [0..<length h]) [0..<n]"
    by (rule transpose_rectangle) (use assms in auto)
  then show ?thesis by (simp add: assms(1))
qed

lemma symmetrized:
  assumes h: "length h = n" "\<forall>row \<in> set h. length row = n" and e: "length e = n"
  defines "S \<equiv> madd (madd h (transpose h)) (diag_matrix e)"
  shows "length S = n" and "\<forall>row \<in> set S. length row = n"
    and "\<And>i j. i < n \<Longrightarrow> j < n \<Longrightarrow> S ! i ! j = h ! i ! j + h ! j ! i + (if i = j then e ! i else 0)"
proof -
  note t = square_transpose [OF h]
  have row: "\<And>i. i < n \<Longrightarrow> length (h ! i) = n"
    using h by simp
  show len: "length S = n"
    by (simp add: S_def t length_madd h(1) e diag_matrix_def)
  have nth: "\<And>i. i < n \<Longrightarrow> S ! i = vadd (vadd (h ! i) (map (\<lambda>j. h ! j ! i) [0..<n]))
      (map (\<lambda>j. if i = j then e ! i else 0) [0..<n])"
    by (simp add: S_def t nth_madd length_madd h(1) e diag_matrix_def cong: if_cong)
  have rowS: "\<And>i. i < n \<Longrightarrow> length (S ! i) = n"
    by (simp add: nth length_vadd row)
  show "\<forall>row \<in> set S. length row = n"
    using rowS len by (auto simp: in_set_conv_nth)
  show "\<And>i j. i < n \<Longrightarrow> j < n \<Longrightarrow> S ! i ! j = h ! i ! j + h ! j ! i + (if i = j then e ! i else 0)"
    by (simp add: nth nth_vadd length_vadd row)
qed


lemma static_core_shape:
  assumes "valid_orbitals cls self"
  defines "c \<equiv> (if non_dyson self then select_cols (occ cls self) (mo_coeff self) else mo_coeff self)"
    and "e \<equiv> (if non_dyson self then select (occ cls self) (mo_energy self) else mo_energy self)"
  defines "xajb \<equiv> ao2mo_general (eri self) c (select_cols (vir cls self) (mo_coeff self))
            (select_cols (occ cls self) (mo_coeff self)) (select_cols (vir cls self) (mo_coeff self))"
  defines "h \<equiv> mscale (einsum_xajb_yajb_xy (tsub4 (tscale4 2 xajb) (transpose_0321 xajb))
      (tdiv4 xajb (direct_sum_xajb e (select (vir cls self) (mo_energy self))
         (select (occ cls self) (mo_energy self)) (select (vir cls self) (mo_energy self))))) 0.5"
  shows "length h = n_main cls self" and "\<forall>row \<in> set h. length row = n_main cls self"
    and "length e = n_main cls self"
proof -
  have e: "length e = n_main cls self"
    by (simp add: e_def n_main_def)
  have x: "length xajb = n_main cls self"
    using ncols_main [OF assms(1)] by (simp add: xajb_def ao2mo_general_def c_def)
  show "length e = n_main cls self" by (rule e)
  show "length h = n_main cls self"
    by (simp add: h_def mscale_def einsum_xajb_yajb_xy_def tsub4_def tscale4_def
        transpose_0321_def x)
  show "\<forall>row \<in> set h. length row = n_main cls self"
    by (auto simp: h_def mscale_def vscale_def einsum_xajb_yajb_xy_def tdiv4_def
        direct_sum_xajb_def x e)
qed

lemma static_shape:
  assumes "valid_orbitals cls self"
  shows "length (get_static_part cls self) = n_main cls self"
    and "\<forall>row \<in> set (get_static_part cls self). length row = n_main cls self"
  unfolding get_static_part_def Let_def
  by (rule symmetrized(1,2) [OF static_core_shape [OF assms]])+




section \<open>The diagonal\<close>

lemma length_diag_of:
  assumes "length S = n" and "\<forall>row \<in> set S. length row = n"
  shows "length (diag_of S) = n"
proof (cases "S = []")
  case True
  with assms show ?thesis by (simp add: diag_of_def)
next
  case False
  from ncols_rows [OF False assms(2)] assms(1) show ?thesis by (simp add: diag_of_def)
qed


lemma concat_concat_map:
  "concat (concat (map (\<lambda>i. map (g i) ys) xs)) = concat (map (\<lambda>i. concat (map (g i) ys)) xs)"
  by (induction xs) simp_all

lemma length_concat_const:
  "(\<And>x. x \<in> set xs \<Longrightarrow> length (F x) = m) \<Longrightarrow> length (concat (map F xs)) = length xs * m"
  by (induction xs) simp_all

lemma ravel3_direct_sum:
  "ravel3 (direct_sum_ija e1 e2 e3) = [ei + ej - ea. ei \<leftarrow> e1, ej \<leftarrow> e2, ea \<leftarrow> e3]"
  by (simp add: ravel3_def direct_sum_ija_def concat_concat_map)

lemma length_ravel3_direct_sum:
  "length (ravel3 (direct_sum_ija e1 e2 e3)) = length e1 * length e2 * length e3"
  by (simp add: ravel3_direct_sum length_concat_const)

text \<open>
  Claim C5. \<open>diagonal()\<close> of a valid expression is the diagonal of the static part,
  of length \<open>n_main\<close>, followed by the energies \<open>e_i + e_j - e_a\<close> of all triples
  of two occupied and one virtual orbital in row-major order; its length is
  \<open>n_main + n_occ * n_occ * n_vir\<close>.
\<close>

theorem diagonal_concatenation:
  assumes "valid_expr cls self"
  shows "diagonal cls self None
           = diag_of (get_static_part cls self)
             @ [ei + ej - ea. ei \<leftarrow> select (occ cls self) (mo_energy self),
                               ej \<leftarrow> select (occ cls self) (mo_energy self),
                               ea \<leftarrow> select (vir cls self) (mo_energy self)]
         \<and> length (diag_of (get_static_part cls self)) = n_main cls self
         \<and> length (diagonal cls self None)
             = n_main cls self + n_occ cls self * n_occ cls self * n_vir cls self"
proof -
  have v: "valid_orbitals cls self" using assms by (simp add: valid_expr_def)
  have d: "length (diag_of (get_static_part cls self)) = n_main cls self"
    by (rule length_diag_of [OF static_shape [OF v]])
  have c: "diagonal cls self None = diag_of (get_static_part cls self)
             @ ravel3 (direct_sum_ija (select (occ cls self) (mo_energy self))
                 (select (occ cls self) (mo_energy self)) (select (vir cls self) (mo_energy self)))"
    by (simp add: diagonal_def Let_def)
  have l: "length (diagonal cls self None)
             = n_main cls self + n_occ cls self * n_occ cls self * n_vir cls self"
    by (simp add: c d length_ravel3_direct_sum n_occ_def n_vir_def)
  from c d l show ?thesis by (simp only: ravel3_direct_sum simp_thms)
qed

theorem diagonal_concatenation_witness:
  "valid_expr MP2_1h (mp2_init MP2_1h example_mf False)
   \<and> length (diagonal MP2_1h (mp2_init MP2_1h example_mf False) None)
       = n_main MP2_1h (mp2_init MP2_1h example_mf False)
         + n_occ MP2_1h (mp2_init MP2_1h example_mf False)
           * n_occ MP2_1h (mp2_init MP2_1h example_mf False)
           * n_vir MP2_1h (mp2_init MP2_1h example_mf False)
   \<and> n_main MP2_1h (mp2_init MP2_1h example_mf False)
         + n_occ MP2_1h (mp2_init MP2_1h example_mf False)
           * n_occ MP2_1h (mp2_init MP2_1h example_mf False)
           * n_vir MP2_1h (mp2_init MP2_1h example_mf False) = 12"
proof -
  have v: "valid_expr MP2_1h (mp2_init MP2_1h example_mf False)"
    by (rule example_valid)
  have n: "n_main MP2_1h (mp2_init MP2_1h example_mf False)
         + n_occ MP2_1h (mp2_init MP2_1h example_mf False)
           * n_occ MP2_1h (mp2_init MP2_1h example_mf False)
           * n_vir MP2_1h (mp2_init MP2_1h example_mf False) = 12"
    by (simp add: n_main_def n_occ_def n_vir_def MP2_masks mp2_init_fields example_mf_def select_def)
  from diagonal_concatenation [OF v] v n show ?thesis
    by blast
qed

section \<open>The wavefunction of an orbital\<close>

lemma get_wavefunction_unit:
  assumes "valid_expr cls self" and "0 \<le> orb" and "orb < int (n_main cls self + n_aux cls self)"
  shows "get_wavefunction cls self orb = Inr (unit_vec (n_main cls self + n_aux cls self) (nat orb))"
proof -
  have v: "valid_orbitals cls self" using assms(1) by (simp add: valid_expr_def)
  note m = valid_masks [OF v] and c = valid_counts [OF v]
  have n: "(if non_dyson self then np_sum (occ cls self)
            else np_sum (occ cls self) + np_sum (vir cls self)) = n_main cls self"
    using m by (simp add: n_main_def length_select)
  have a: "np_sum (occ cls self) * np_sum (occ cls self) * np_sum (vir cls self) = n_aux cls self"
    by (simp add: n_aux_def c)
  show ?thesis
    unfolding get_wavefunction_def Let_def n a
    using assms(2,3) by (simp add: setitem_def unit_vec_def)
qed

text \<open>
  Claim C7. For a main-orbital index \<open>0 \<le> orb < n_main\<close>, \<open>get_wavefunction(orb)\<close>
  of a valid expression returns a vector of length \<open>n_main + n_occ * n_occ * n_vir\<close>
  whose entry \<open>orb\<close> is one and whose other entries are zero.
\<close>

theorem wavefunction_one_hot:
  assumes "valid_expr cls self" and "0 \<le> orb" and "orb < int (n_main cls self)"
  shows "\<exists>w. get_wavefunction cls self orb = Inr w
           \<and> length w = n_main cls self + n_occ cls self * n_occ cls self * n_vir cls self
           \<and> w ! nat orb = 1
           \<and> (\<forall>k < length w. k \<noteq> nat orb \<longrightarrow> w ! k = 0)"
proof -
  have "orb < int (n_main cls self + n_aux cls self)" using assms(3) by simp
  from get_wavefunction_unit [OF assms(1,2) this] assms(2,3) show ?thesis
    by (simp add: unit_vec_def n_aux_def)
qed

theorem wavefunction_one_hot_witness:
  "valid_expr MP2_1h (mp2_init MP2_1h example_mf False)
   \<and> (0::int) \<le> 0 \<and> 0 < int (n_main MP2_1h (mp2_init MP2_1h example_mf False))
   \<and> (\<exists>w. get_wavefunction MP2_1h (mp2_init MP2_1h example_mf False) 0 = Inr w
         \<and> length w = n_main MP2_1h (mp2_init MP2_1h example_mf False)
             + n_occ MP2_1h (mp2_init MP2_1h example_mf False)
               * n_occ MP2_1h (mp2_init MP2_1h example_mf False)
               * n_vir MP2_1h (mp2_init MP2_1h example_mf False)
         \<and> w ! nat 0 = 1
         \<and> (\<forall>k < length w. k \<noteq> nat 0 \<longrightarrow> w ! k = 0))"
proof -
  have v: "valid_expr MP2_1h (mp2_init MP2_1h example_mf False)"
    by (rule example_valid)
  have z: "(0::int) \<le> 0"
    by simp
  have n: "0 < int (n_main MP2_1h (mp2_init MP2_1h example_mf False))"
    by (simp add: n_main_def mp2_init_fields example_mf_def)
  from wavefunction_one_hot [OF v z n] v z n show ?thesis
    by blast
qed

section \<open>The operator in closed form\<close>



























section \<open>Linearity\<close>















lemma sum_list_upt_Suc: "(\<Sum>k\<leftarrow>[0..<Suc m]. g k) = (\<Sum>k\<leftarrow>[0..<m]. g k) + (g m :: real)"
  by simp










section \<open>The diagonal of the operator\<close>














section \<open>The moments of the self-energy\<close>

lemma has_shape4_nth:
  assumes "has_shape4 (d0, d1, d2, d3) T"
  shows "length T = d0"
    and "\<And>x. x < d0 \<Longrightarrow> length (T ! x) = d1"
    and "\<And>x i. x < d0 \<Longrightarrow> i < d1 \<Longrightarrow> length (T ! x ! i) = d2"
    and "\<And>x i j. x < d0 \<Longrightarrow> i < d1 \<Longrightarrow> j < d2 \<Longrightarrow> length (T ! x ! i ! j) = d3"
proof -
  from assms have l0: "length T = d0"
    and l1: "\<forall>Tx \<in> set T. length Tx = d1"
    and l2: "\<forall>Tx \<in> set T. \<forall>Txy \<in> set Tx. length Txy = d2"
    and l3: "\<forall>Tx \<in> set T. \<forall>Txy \<in> set Tx. \<forall>Txyz \<in> set Txy. length Txyz = d3"
    by (auto simp: has_shape4_def)
  show "length T = d0" by (rule l0)
  show a: "length (T ! x) = d1" if "x < d0" for x
    using that l0 l1 by simp
  show b: "length (T ! x ! i) = d2" if "x < d0" "i < d1" for x i
  proof -
    have "T ! x \<in> set T" using that l0 by simp
    moreover have "T ! x ! i \<in> set (T ! x)" using that a [of x] by simp
    ultimately show ?thesis using l2 by blast
  qed
  show "length (T ! x ! i ! j) = d3" if "x < d0" "i < d1" "j < d2" for x i j
  proof -
    have "T ! x \<in> set T" using that l0 by simp
    moreover have "T ! x ! i \<in> set (T ! x)" using that a [of x] by simp
    moreover have "T ! x ! i ! j \<in> set (T ! x ! i)" using that b [of x i] by simp
    ultimately show ?thesis using l3 by blast
  qed
qed

lemma se_moment_term_entries:
  assumes X: "has_shape4 (m, length eo, length eo, length ev) X" and i: "i < length eo"
  shows "se_moment_term eo ev X n i
         = map (\<lambda>x. map (\<lambda>y. \<Sum>j\<leftarrow>[0..<length eo]. \<Sum>a\<leftarrow>[0..<length ev].
                   X ! x ! i ! j ! a * (2 * X ! y ! i ! j ! a - X ! y ! j ! i ! a)
                     * (eo ! i + eo ! j - ev ! a) ^ n) [0..<m]) [0..<m]"
proof -
  note s = has_shape4_nth [OF X]
  have vl: "slice1 i X ! x ! j ! a = X ! x ! i ! j ! a" if "x < m" for x j a
    using that by (simp add: slice1_def s(1))
  have vr: "tsub3 (tscale3 2 (slice1 i X)) (slice2 i X) ! y ! j ! a
            = 2 * X ! y ! i ! j ! a - X ! y ! j ! i ! a"
    if "y < m" "j < length eo" "a < length ev" for y j a
    using that i by (simp add: tsub3_def tscale3_def slice1_def slice2_def s)
  have w: "map (map (\<lambda>x. x ^ n)) (map (map (\<lambda>x. eo ! i + x)) (direct_sum_ja eo ev)) ! j ! a
           = (eo ! i + eo ! j - ev ! a) ^ n"
    if "j < length eo" "a < length ev" for j a
    using that by (simp add: direct_sum_ja_def add_diff_eq)
  have len: "length (slice1 i X) = m" "length (tsub3 (tscale3 2 (slice1 i X)) (slice2 i X)) = m"
    by (simp_all add: slice1_def slice2_def tsub3_def tscale3_def s(1))
  show ?thesis
    unfolding se_moment_term_def Let_def einsum_xja_yja_ja_xy_def prod.case len
    by (intro map_cong arg_cong [where f = sum_list] refl) (simp add: vl vr w del: map_map)
qed

lemma madd_tabulated:
  "madd (map (\<lambda>x. map (\<lambda>y. f x y) [0..<m]) [0..<k]) (map (\<lambda>x. map (\<lambda>y. g x y) [0..<m]) [0..<k])
   = map (\<lambda>x. map (\<lambda>y. f x y + g x y) [0..<m]) [0..<k]"
  by (simp add: madd_def vadd_def map2_map_map)

lemma fold_nd_iadd_Matrix:
  "fold (\<lambda>i tn. nd_iadd tn (map (\<lambda>x. map (\<lambda>y. g i x y) [0..<m]) [0..<m])) is
     (Matrix (map (\<lambda>x. map (\<lambda>y. h x y) [0..<m]) [0..<m]))
   = Matrix (map (\<lambda>x. map (\<lambda>y. h x y + (\<Sum>i\<leftarrow>is. g i x y)) [0..<m]) [0..<m])"
  by (induction "is" arbitrary: h) (simp_all add: madd_tabulated add.assoc)

lemma fold_nd_iadd_Scalar:
  assumes "is \<noteq> []"
  shows "fold (\<lambda>i tn. nd_iadd tn (map (\<lambda>x. map (\<lambda>y. g i x y) [0..<m]) [0..<m])) is (Scalar 0)
         = Matrix (map (\<lambda>x. map (\<lambda>y. \<Sum>i\<leftarrow>is. g i x y) [0..<m]) [0..<m])"
proof (cases "is")
  case Nil
  with assms show ?thesis by simp
next
  case (Cons i0 rest)
  show ?thesis
    unfolding Cons by (simp add: fold_nd_iadd_Matrix comp_def)
qed

text \<open>
  With at least one occupied orbital, \<open>build_se_moments(nmom)\<close> of a valid expression
  returns \<open>nmom\<close> matrices of size \<open>n_main \<times> n_main\<close>, the one of order \<open>n\<close> being
  the moment of the specification: the first \<^verbatim>\<open>tn += ...\<close> turns the accumulator into a
  matrix.
\<close>

lemma build_se_moments_spec:
  assumes "valid_expr cls self" and "0 < n_occ cls self"
  shows "build_se_moments cls self nmom = map (\<lambda>n. Matrix (se_moment_spec cls self n)) [0..<nmom]"
proof -
  let ?eo = "select (occ cls self) (mo_energy self)" and ?ev = "select (vir cls self) (mo_energy self)"
  have X: "has_shape4 (n_main cls self, length ?eo, length ?eo, length ?ev) (xija self)"
    using xija_shape [OF assms(1)] by (simp add: n_occ_def n_vir_def)
  have ne: "[0..<length ?eo] \<noteq> []"
    using assms(2) by (simp add: n_occ_def)
  have "fold (\<lambda>i tn. nd_iadd tn (se_moment_term ?eo ?ev (xija self) n i)) [0..<length ?eo] (Scalar 0)
        = Matrix (se_moment_spec cls self n)" for n
  proof -
    have "fold (\<lambda>i tn. nd_iadd tn (se_moment_term ?eo ?ev (xija self) n i)) [0..<length ?eo] (Scalar 0)
          = fold (\<lambda>i tn. nd_iadd tn (map (\<lambda>x. map (\<lambda>y. \<Sum>j\<leftarrow>[0..<length ?eo]. \<Sum>a\<leftarrow>[0..<length ?ev].
                   xija self ! x ! i ! j ! a * (2 * xija self ! y ! i ! j ! a - xija self ! y ! j ! i ! a)
                     * (?eo ! i + ?eo ! j - ?ev ! a) ^ n) [0..<n_main cls self]) [0..<n_main cls self]))
              [0..<length ?eo] (Scalar 0)"
      by (rule fold_cong) (simp_all add: se_moment_term_entries [OF X])
    also have "\<dots> = Matrix (se_moment_spec cls self n)"
      unfolding fold_nd_iadd_Scalar [OF ne]
      by (simp add: se_moment_spec_def Let_def n_occ_def n_vir_def)
    finally show ?thesis .
  qed
  then show ?thesis
    by (simp add: build_se_moments_def Let_def)
qed

lemma minimal_valid: "valid_expr MP2_1p (mp2_init MP2_1p minimal_mf False)"
proof (rule valid_mp2_init)
  show "valid_orbitals MP2_1p (base_init minimal_mf)"
    by (simp add: valid_orbitals_def Let_def MP2_masks base_init_def minimal_mf_def has_shape4_def)
qed simp

text \<open>
  Claim C3. \<open>build_se_moments(n_moments)\<close> is to return \<open>n_moments\<close> matrices of size
  \<open>n_main \<times> n_main\<close>, the one of order \<open>n\<close> being the sum over the occupied index
  and the auxiliary pairs of the products of the couplings weighted by the power \<open>n\<close> of
  the auxiliary energy. On the valid particle expression of the one-orbital system the
  main block has size one and there is no occupied index: the inner loop is not entered,
  the accumulator stays the number \<open>0\<close>, and the result lists two numbers where the
  moments are the \<open>1 \<times> 1\<close> zero matrices.
\<close>

theorem build_se_moments_no_occupied:
  "valid_expr MP2_1p (mp2_init MP2_1p minimal_mf False)
   \<and> n_main MP2_1p (mp2_init MP2_1p minimal_mf False) = 1
   \<and> n_occ MP2_1p (mp2_init MP2_1p minimal_mf False) = 0
   \<and> build_se_moments MP2_1p (mp2_init MP2_1p minimal_mf False) 2 = [Scalar 0, Scalar 0]
   \<and> map (\<lambda>n. Matrix (se_moment_spec MP2_1p (mp2_init MP2_1p minimal_mf False) n)) [0..<2]
       = [Matrix [[0]], Matrix [[0]]]"
proof -
  have n: "n_main MP2_1p (mp2_init MP2_1p minimal_mf False) = 1"
    by (simp add: n_main_def mp2_init_fields minimal_mf_def)
  have o: "n_occ MP2_1p (mp2_init MP2_1p minimal_mf False) = 0"
    by (simp add: n_occ_def MP2_masks mp2_init_fields minimal_mf_def select_def)
  have b: "build_se_moments MP2_1p (mp2_init MP2_1p minimal_mf False) 2 = [Scalar 0, Scalar 0]"
    by (simp add: build_se_moments_def Let_def MP2_masks mp2_init_fields minimal_mf_def select_def
        upt_rec)
  have s: "map (\<lambda>n. Matrix (se_moment_spec MP2_1p (mp2_init MP2_1p minimal_mf False) n)) [0..<2]
       = [Matrix [[0]], Matrix [[0]]]"
    by (simp add: se_moment_spec_def Let_def n o upt_rec)
  from minimal_valid n o b s show ?thesis by blast
qed

end
